theory Spec2Isabelle
  imports Main "HOL-Library.Word" "HOL-Library.AList"
begin

section \<open>Exceptions and results\<close>

text \<open>
  The exception classes of \<^verbatim>\<open>switchyard/lib/common.py\<close> (\<^verbatim>\<open>SwitchyException\<close> with its
  message, \<^verbatim>\<open>Shutdown\<close>, \<^verbatim>\<open>NoPackets\<close>, \<^verbatim>\<open>ScenarioFailure\<close>), the built-in exceptions
  that the modelled Python operations raise, and \<^verbatim>\<open>AddressFormatError\<close>, the name the
  specification gives to the failure of an address constructor. A call that may raise
  returns \<open>error + 'a\<close>, with \<open>Inl\<close> for the exception.
\<close>

datatype error =
    SwitchyException string
  | Shutdown
  | NoPackets
  | ScenarioFailure
  | AddressFormatError
  | AttributeError
  | KeyError
  | IndexError
  | ValueError

definition bind_result :: "error + 'a \<Rightarrow> ('a \<Rightarrow> error + 'b) \<Rightarrow> error + 'b" where
  "bind_result r f = (case r of Inl e \<Rightarrow> Inl e | Inr x \<Rightarrow> f x)"

section \<open>String helpers\<close>

text \<open>
  \<^verbatim>\<open>str.format\<close> restricted to what the templates of \<^verbatim>\<open>common.py\<close> use: the
  auto-numbered replacement field \<^verbatim>\<open>{}\<close> and the escapes \<^verbatim>\<open>{{\<close> and \<^verbatim>\<open>}}\<close>. A field with
  no argument left raises \<^verbatim>\<open>IndexError\<close>; a single brace raises \<^verbatim>\<open>ValueError\<close>, and so does,
  in this model, any named or numbered field.
\<close>

fun py_format :: "string \<Rightarrow> string list \<Rightarrow> error + string" where
  "py_format [] args = Inr []"
| "py_format [c] args =
     (if c = CHR ''{'' \<or> c = CHR ''}'' then Inl ValueError else Inr [c])"
| "py_format (c # d # t) args =
     (if c = CHR ''{'' \<and> d = CHR ''}'' then
        (case args of
           [] \<Rightarrow> Inl IndexError
         | a # rest \<Rightarrow> bind_result (py_format t rest) (\<lambda>r. Inr (a @ r)))
      else if c = CHR ''{'' \<and> d = CHR ''{'' then
        bind_result (py_format t args) (\<lambda>r. Inr (CHR ''{'' # r))
      else if c = CHR ''}'' \<and> d = CHR ''}'' then
        bind_result (py_format t args) (\<lambda>r. Inr (CHR ''}'' # r))
      else if c = CHR ''{'' \<or> c = CHR ''}'' then Inl ValueError
      else bind_result (py_format (d # t) args) (\<lambda>r. Inr (c # r)))"

text \<open>\<^verbatim>\<open>s.split(sep)\<close> for a one-character separator, and \<^verbatim>\<open>sep.join(groups)\<close>.\<close>

fun split_on :: "char \<Rightarrow> string \<Rightarrow> string list" where
  "split_on sep [] = [[]]"
| "split_on sep (c # cs) =
     (if c = sep then [] # split_on sep cs
      else (case split_on sep cs of
              [] \<Rightarrow> [[c]]
            | g # gs \<Rightarrow> (c # g) # gs))"

fun join :: "char \<Rightarrow> string list \<Rightarrow> string" where
  "join sep [] = []"
| "join sep [g] = g"
| "join sep (g # h # gs) = g @ sep # join sep (h # gs)"

text \<open>Decimal digits: \<^verbatim>\<open>str(n)\<close> for a natural number, and the value of a digit string.\<close>

definition digit_char :: "nat \<Rightarrow> char" where
  "digit_char d = ''0123456789'' ! d"

definition digit_value :: "char \<Rightarrow> nat option" where
  "digit_value c = map_of
     [(CHR ''0'', 0), (CHR ''1'', 1), (CHR ''2'', 2), (CHR ''3'', 3), (CHR ''4'', 4),
      (CHR ''5'', 5), (CHR ''6'', 6), (CHR ''7'', 7), (CHR ''8'', 8), (CHR ''9'', 9)] c"

fun show_nat :: "nat \<Rightarrow> string" where
  "show_nat n = (if n < 10 then [digit_char n] else show_nat (n div 10) @ [digit_char (n mod 10)])"

declare show_nat.simps [simp del]

definition show_int :: "int \<Rightarrow> string" where
  "show_int i = (if i < 0 then CHR ''-'' # show_nat (nat (- i)) else show_nat (nat i))"

fun decimal_value :: "string \<Rightarrow> nat option" where
  "decimal_value [] = Some 0"
| "decimal_value (c # cs) =
     (case (digit_value c, decimal_value cs) of
        (Some d, Some n) \<Rightarrow> Some (d * 10 ^ length cs + n)
      | _ \<Rightarrow> None)"

text \<open>Hexadecimal digits, rendered in lower case and read in either case.\<close>

definition hex_char :: "nat \<Rightarrow> char" where
  "hex_char d = ''0123456789abcdef'' ! d"

definition hex_value :: "char \<Rightarrow> nat option" where
  "hex_value c = map_of
     [(CHR ''0'', 0), (CHR ''1'', 1), (CHR ''2'', 2), (CHR ''3'', 3), (CHR ''4'', 4),
      (CHR ''5'', 5), (CHR ''6'', 6), (CHR ''7'', 7), (CHR ''8'', 8), (CHR ''9'', 9),
      (CHR ''a'', 10), (CHR ''b'', 11), (CHR ''c'', 12), (CHR ''d'', 13), (CHR ''e'', 14),
      (CHR ''f'', 15),
      (CHR ''A'', 10), (CHR ''B'', 11), (CHR ''C'', 12), (CHR ''D'', 13), (CHR ''E'', 14),
      (CHR ''F'', 15)] c"

definition lower_char :: "char \<Rightarrow> char" where
  "lower_char c =
     (let n = (of_char c :: nat) in if 65 \<le> n \<and> n \<le> 90 then char_of (n + 32) else c)"

text \<open>The octets of a number, most significant first, and back.\<close>

fun to_octets :: "nat \<Rightarrow> nat \<Rightarrow> nat list" where
  "to_octets 0 n = []"
| "to_octets (Suc k) n = to_octets k (n div 256) @ [n mod 256]"

definition from_octets :: "nat list \<Rightarrow> nat" where
  "from_octets os = foldl (\<lambda>acc b. 256 * acc + b) 0 os"

section \<open>Typed addresses\<close>

text \<open>
  Modelled from the spec: the module \<^verbatim>\<open>switchyard.lib.address\<close>, from which
  \<^verbatim>\<open>common.py\<close> imports \<^verbatim>\<open>EthAddr\<close> and \<^verbatim>\<open>IPAddr\<close>, is not among the sources. The
  specification describes an address value as a typed wrapper around a fixed-width address
  (48 bits for a MAC address, 32 bits for an IPv4 address), constructed from its canonical
  string form or from another instance of the same type, with canonical equality and
  string formatting, and with \<^verbatim>\<open>AddressFormatError\<close> for a malformed string.

  The string forms are those of the specification's examples: six groups of two
  hexadecimal digits separated by colons (\<^verbatim>\<open>00:00:00:00:00:00\<close>, \<^verbatim>\<open>AA:AA:AA:AA:AA:AA\<close>), and
  four decimal groups separated by dots (\<^verbatim>\<open>0.0.0.0\<close>, \<^verbatim>\<open>10.0.0.1\<close>, \<^verbatim>\<open>255.255.255.255\<close>).
  The model reads hexadecimal digits in either case and renders them in lower case; a
  decimal group is an octet written without leading zeros.
\<close>

datatype EthAddr = MkEthAddr (eth_bits: "48 word")

datatype IPAddr = MkIPAddr (ip_bits: "32 word")

fun parse_hex2 :: "string \<Rightarrow> nat option" where
  "parse_hex2 [a, b] =
     (case (hex_value a, hex_value b) of
        (Some h, Some l) \<Rightarrow> Some (16 * h + l)
      | _ \<Rightarrow> None)"
| "parse_hex2 _ = None"

definition show_hex2 :: "nat \<Rightarrow> string" where
  "show_hex2 n = [hex_char (n div 16), hex_char (n mod 16)]"

definition parse_octet :: "string \<Rightarrow> nat option" where
  "parse_octet ds =
     (if ds = [] \<or> 3 < length ds \<or> (1 < length ds \<and> hd ds = CHR ''0'') then None
      else (case decimal_value ds of
              None \<Rightarrow> None
            | Some n \<Rightarrow> if n \<le> 255 then Some n else None))"

definition parse_mac :: "string \<Rightarrow> EthAddr option" where
  "parse_mac s =
     (let groups = split_on CHR '':'' s in
      if length groups = 6 then
        (case those (map parse_hex2 groups) of
           None \<Rightarrow> None
         | Some os \<Rightarrow> Some (MkEthAddr (of_nat (from_octets os))))
      else None)"

definition parse_ip :: "string \<Rightarrow> IPAddr option" where
  "parse_ip s =
     (let groups = split_on CHR ''.'' s in
      if length groups = 4 then
        (case those (map parse_octet groups) of
           None \<Rightarrow> None
         | Some os \<Rightarrow> Some (MkIPAddr (of_nat (from_octets os))))
      else None)"

definition EthAddr_str :: "EthAddr \<Rightarrow> string" where
  "EthAddr_str a = join CHR '':'' (map show_hex2 (to_octets 6 (unat (eth_bits a))))"

definition IPAddr_str :: "IPAddr \<Rightarrow> string" where
  "IPAddr_str a = join CHR ''.'' (map show_nat (to_octets 4 (unat (ip_bits a))))"

text \<open>The canonical form of an address string: lower-case hexadecimal digits for a MAC
  address; a valid IPv4 string is already canonical.\<close>

definition canonical_mac :: "string \<Rightarrow> string" where
  "canonical_mac s = map lower_char s"

definition canonical_ip :: "string \<Rightarrow> string" where
  "canonical_ip s = s"

section \<open>Python values\<close>

text \<open>
  The values that reach an address field or an address lookup: \<^verbatim>\<open>None\<close>, a \<^verbatim>\<open>str\<close>, an
  \<^verbatim>\<open>EthAddr\<close>, an \<^verbatim>\<open>IPAddr\<close>, and, for every other type, an \<^verbatim>\<open>int\<close>.
\<close>

datatype pyval =
    VNone
  | VStr string
  | VInt int
  | VEth EthAddr
  | VIP IPAddr

fun py_str :: "pyval \<Rightarrow> string" where
  "py_str VNone = ''None''"
| "py_str (VStr s) = s"
| "py_str (VInt i) = show_int i"
| "py_str (VEth a) = EthAddr_str a"
| "py_str (VIP a) = IPAddr_str a"

text \<open>
  Modelled from the spec: the constructors \<^verbatim>\<open>EthAddr(x)\<close> and \<^verbatim>\<open>IPAddr(x)\<close> and the
  comparison \<^verbatim>\<open>==\<close> of \<^verbatim>\<open>switchyard.lib.address\<close>, which is not among the sources. An
  instance of the same type is taken as it is, a string is parsed and a malformed one
  raises \<^verbatim>\<open>AddressFormatError\<close>. The specification names no outcome for any other argument;
  the model raises the same error there. Equality is canonical: two values are equal when
  they are of the same type and hold the same bits (or the same string, or the same
  number).
\<close>

fun EthAddr_init :: "pyval \<Rightarrow> error + EthAddr" where
  "EthAddr_init (VEth a) = Inr a"
| "EthAddr_init (VStr s) =
     (case parse_mac s of None \<Rightarrow> Inl AddressFormatError | Some a \<Rightarrow> Inr a)"
| "EthAddr_init _ = Inl AddressFormatError"

fun IPAddr_init :: "pyval \<Rightarrow> error + IPAddr" where
  "IPAddr_init (VIP a) = Inr a"
| "IPAddr_init (VStr s) =
     (case parse_ip s of None \<Rightarrow> Inl AddressFormatError | Some a \<Rightarrow> Inr a)"
| "IPAddr_init _ = Inl AddressFormatError"

definition py_eq :: "pyval \<Rightarrow> pyval \<Rightarrow> bool" where
  "py_eq v w = (v = w)"

section \<open>Interface\<close>

text \<open>
  An \<^verbatim>\<open>Interface\<close> object holds the four private attributes \<^verbatim>\<open>__name\<close>, \<^verbatim>\<open>__ethaddr\<close>,
  \<^verbatim>\<open>__ipaddr\<close> and \<^verbatim>\<open>__netmask\<close>, read through the properties of the same names. A method
  takes the object's state and returns the new one, or the exception it raises.
\<close>

record Interface =
  name :: pyval
  ethaddr :: pyval
  ipaddr :: pyval
  netmask :: pyval

fun ethaddr_setter :: "Interface \<Rightarrow> pyval \<Rightarrow> error + Interface" where
  "ethaddr_setter self (VEth a) = Inr (self\<lparr>ethaddr := VEth a\<rparr>)"
| "ethaddr_setter self (VStr s) =
     bind_result (EthAddr_init (VStr s)) (\<lambda>a. Inr (self\<lparr>ethaddr := VEth a\<rparr>))"
| "ethaddr_setter self VNone = Inr (self\<lparr>ethaddr := VStr ''00:00:00:00:00:00''\<rparr>)"
| "ethaddr_setter self v = Inr (self\<lparr>ethaddr := v\<rparr>)"

fun ipaddr_setter :: "Interface \<Rightarrow> pyval \<Rightarrow> error + Interface" where
  "ipaddr_setter self (VIP a) = Inr (self\<lparr>ipaddr := VIP a\<rparr>)"
| "ipaddr_setter self (VStr s) =
     bind_result (IPAddr_init (VStr s)) (\<lambda>a. Inr (self\<lparr>ipaddr := VIP a\<rparr>))"
| "ipaddr_setter self VNone = Inr (self\<lparr>ipaddr := VStr ''0.0.0.0''\<rparr>)"
| "ipaddr_setter self v = Inr (self\<lparr>ipaddr := v\<rparr>)"

fun netmask_setter :: "Interface \<Rightarrow> pyval \<Rightarrow> error + Interface" where
  "netmask_setter self (VIP a) = Inr (self\<lparr>netmask := VIP a\<rparr>)"
| "netmask_setter self (VStr s) =
     bind_result (IPAddr_init (VStr s)) (\<lambda>a. Inr (self\<lparr>netmask := VIP a\<rparr>))"
| "netmask_setter self VNone = Inr (self\<lparr>netmask := VStr ''255.255.255.255''\<rparr>)"
| "netmask_setter self v = Inr (self\<lparr>netmask := v\<rparr>)"

text \<open>
  \<^verbatim>\<open>__init__\<close> stores the name and runs the three setters in order; an exception of a
  setter leaves the constructor. The address attributes do not exist before their setter
  has run; the model holds \<open>VNone\<close> in their place until then.
\<close>

definition Interface_init :: "pyval \<Rightarrow> pyval \<Rightarrow> pyval \<Rightarrow> pyval \<Rightarrow> error + Interface" where
  "Interface_init nm eth ip nmask =
     bind_result (ethaddr_setter \<lparr>name = nm, ethaddr = VNone, ipaddr = VNone, netmask = VNone\<rparr> eth)
       (\<lambda>self. bind_result (ipaddr_setter self ip)
          (\<lambda>self. netmask_setter self nmask))"

text \<open>
  Attribute assignment \<^verbatim>\<open>obj.attr = value\<close> from outside the class. The property \<^verbatim>\<open>name\<close>
  has a getter only, so assigning it raises \<^verbatim>\<open>AttributeError\<close>; the other three properties
  run their setters.
\<close>

datatype attr = A_name | A_ethaddr | A_ipaddr | A_netmask

fun Interface_setattr :: "Interface \<Rightarrow> attr \<Rightarrow> pyval \<Rightarrow> error + Interface" where
  "Interface_setattr self A_name v = Inl AttributeError"
| "Interface_setattr self A_ethaddr v = ethaddr_setter self v"
| "Interface_setattr self A_ipaddr v = ipaddr_setter self v"
| "Interface_setattr self A_netmask v = netmask_setter self v"

definition Interface_str :: "Interface \<Rightarrow> error + string" where
  "Interface_str self =
     py_format ''{} mac:{} ip:{}/{}''
       [py_str (name self), py_str (ethaddr self), py_str (ipaddr self), py_str (netmask self)]"

section \<open>Objects and dictionaries\<close>

text \<open>
  Python objects are shared by reference. The store maps the reference of an \<^verbatim>\<open>Interface\<close>
  object to its state and the reference of a \<^verbatim>\<open>dict\<close> object to its contents. A dictionary
  from names to \<^verbatim>\<open>Interface\<close> references is an association list in enumeration order:
  assigning to a key that is present replaces its value in place, assigning to a new key
  appends, deleting removes the key.
\<close>

type_synonym ref = nat

type_synonym 'v pydict = "(string \<times> 'v) list"

definition dict_contains :: "'v pydict \<Rightarrow> string \<Rightarrow> bool" where
  "dict_contains d k = (k \<in> set (map fst d))"

definition dict_getitem :: "'v pydict \<Rightarrow> string \<Rightarrow> error + 'v" where
  "dict_getitem d k = (case map_of d k of None \<Rightarrow> Inl KeyError | Some v \<Rightarrow> Inr v)"

definition dict_setitem :: "'v pydict \<Rightarrow> string \<Rightarrow> 'v \<Rightarrow> 'v pydict" where
  "dict_setitem d k v = AList.update k v d"

definition dict_delitem :: "'v pydict \<Rightarrow> string \<Rightarrow> error + 'v pydict" where
  "dict_delitem d k = (if dict_contains d k then Inr (AList.delete k d) else Inl KeyError)"

definition dict_items :: "'v pydict \<Rightarrow> (string \<times> 'v) list" where
  "dict_items d = d"

record store =
  ifaces :: "ref \<Rightarrow> Interface"
  dicts :: "ref \<Rightarrow> ref pydict"

text \<open>
  \<^verbatim>\<open>d.values()\<close> returns a view object that keeps a reference to the dictionary \<^verbatim>\<open>d\<close>;
  enumerating the view reads the dictionary as it is at that moment.
\<close>

datatype dict_values = DictValues ref

definition list_of_view :: "store \<Rightarrow> dict_values \<Rightarrow> ref list" where
  "list_of_view s v = (case v of DictValues d \<Rightarrow> map snd (dicts s d))"

section \<open>LLNetBase\<close>

text \<open>
  The attributes of an \<^verbatim>\<open>LLNetBase\<close> object: the callback (a reference to a function
  object, or \<^verbatim>\<open>None\<close>) and \<^verbatim>\<open>devinfo\<close>, the reference of the dictionary from device names to
  \<^verbatim>\<open>Interface\<close> objects.
\<close>

record LLNetBase =
  devupdown_callback :: "ref option"
  devinfo :: ref

text \<open>\<^verbatim>\<open>__init__\<close> creates a new, empty dictionary; \<open>d\<close> is the reference it gets.\<close>

definition LLNetBase_init :: "store \<Rightarrow> ref \<Rightarrow> LLNetBase \<times> store" where
  "LLNetBase_init s d =
     (\<lparr>devupdown_callback = None, devinfo = d\<rparr>, s\<lparr>dicts := (dicts s)(d := [])\<rparr>)"

definition set_devupdown_callback :: "LLNetBase \<Rightarrow> ref option \<Rightarrow> LLNetBase" where
  "set_devupdown_callback self callback = self\<lparr>devupdown_callback := callback\<rparr>"

text \<open>
  Registration and removal are the dictionary operations \<^verbatim>\<open>self.devinfo[n] = iface\<close> and
  \<^verbatim>\<open>del self.devinfo[n]\<close>, which the class leaves to its subclasses.
\<close>

definition register :: "store \<Rightarrow> LLNetBase \<Rightarrow> string \<Rightarrow> ref \<Rightarrow> store" where
  "register s self n iface =
     s\<lparr>dicts := (dicts s)(devinfo self := dict_setitem (dicts s (devinfo self)) n iface)\<rparr>"

definition unregister :: "store \<Rightarrow> LLNetBase \<Rightarrow> string \<Rightarrow> error + store" where
  "unregister s self n =
     bind_result (dict_delitem (dicts s (devinfo self)) n)
       (\<lambda>d. Inr (s\<lparr>dicts := (dicts s)(devinfo self := d)\<rparr>))"

text \<open>\<^verbatim>\<open>raise SwitchyException(template.format(...))\<close>: the message is formatted first.\<close>

definition raise_SwitchyException :: "error + string \<Rightarrow> error + 'a" where
  "raise_SwitchyException msg = bind_result msg (\<lambda>m. Inl (SwitchyException m))"

text \<open>\<^verbatim>\<open>interfaces\<close> returns the view and the store it leaves behind.\<close>

definition interfaces :: "store \<Rightarrow> LLNetBase \<Rightarrow> dict_values \<times> store" where
  "interfaces s self = (DictValues (devinfo self), s)"

definition ports :: "store \<Rightarrow> LLNetBase \<Rightarrow> dict_values \<times> store" where
  "ports s self = interfaces s self"

definition interface_by_name :: "store \<Rightarrow> LLNetBase \<Rightarrow> string \<Rightarrow> error + ref" where
  "interface_by_name s self n =
     (if dict_contains (dicts s (devinfo self)) n then dict_getitem (dicts s (devinfo self)) n
      else raise_SwitchyException (py_format ''No device named {}'' [n]))"

definition port_by_name :: "store \<Rightarrow> LLNetBase \<Rightarrow> string \<Rightarrow> error + ref" where
  "port_by_name s self n = interface_by_name s self n"

fun ipaddr_loop :: "store \<Rightarrow> (string \<times> ref) list \<Rightarrow> IPAddr \<Rightarrow> ref option" where
  "ipaddr_loop s [] a = None"
| "ipaddr_loop s ((devname, iface) # rest) a =
     (if py_eq (ipaddr (ifaces s iface)) (VIP a) then Some iface else ipaddr_loop s rest a)"

definition interface_by_ipaddr :: "store \<Rightarrow> LLNetBase \<Rightarrow> pyval \<Rightarrow> error + ref" where
  "interface_by_ipaddr s self x =
     bind_result (IPAddr_init x)
       (\<lambda>a. case ipaddr_loop s (dict_items (dicts s (devinfo self))) a of
               Some iface \<Rightarrow> Inr iface
             | None \<Rightarrow>
                 raise_SwitchyException
                   (py_format ''No device has IP address {}'' [py_str (VIP a)]))"

definition port_by_ipaddr :: "store \<Rightarrow> LLNetBase \<Rightarrow> pyval \<Rightarrow> error + ref" where
  "port_by_ipaddr s self x = interface_by_ipaddr s self x"

fun macaddr_loop :: "store \<Rightarrow> (string \<times> ref) list \<Rightarrow> EthAddr \<Rightarrow> ref option" where
  "macaddr_loop s [] a = None"
| "macaddr_loop s ((devname, iface) # rest) a =
     (if py_eq (ethaddr (ifaces s iface)) (VEth a) then Some iface else macaddr_loop s rest a)"

definition interface_by_macaddr :: "store \<Rightarrow> LLNetBase \<Rightarrow> pyval \<Rightarrow> error + ref" where
  "interface_by_macaddr s self x =
     bind_result (EthAddr_init x)
       (\<lambda>a. case macaddr_loop s (dict_items (dicts s (devinfo self))) a of
               Some iface \<Rightarrow> Inr iface
             | None \<Rightarrow>
                 raise_SwitchyException
                   (py_format ''No device has MAC address {}'' [py_str (VEth a)]))"

definition port_by_macaddr :: "store \<Rightarrow> LLNetBase \<Rightarrow> pyval \<Rightarrow> error + ref" where
  "port_by_macaddr s self x = interface_by_macaddr s self x"

text \<open>
  The bodies that the abstract methods have in \<^verbatim>\<open>LLNetBase\<close> itself: \<^verbatim>\<open>recv_packet\<close> raises
  \<^verbatim>\<open>NoPackets\<close>; \<^verbatim>\<open>send_packet\<close>, \<^verbatim>\<open>shutdown\<close> and \<^verbatim>\<open>name\<close> do nothing and return \<^verbatim>\<open>None\<close>.
  The class cannot be instantiated; a subclass has to override all four.
\<close>

definition LLNetBase_recv_packet :: "LLNetBase \<Rightarrow> error + pyval" where
  "LLNetBase_recv_packet self = Inl NoPackets"

definition LLNetBase_send_packet :: "LLNetBase \<Rightarrow> error + pyval" where
  "LLNetBase_send_packet self = Inr VNone"

definition LLNetBase_shutdown :: "LLNetBase \<Rightarrow> error + pyval" where
  "LLNetBase_shutdown self = Inr VNone"

section \<open>The backend contract\<close>

text \<open>
  Modelled from the spec: the concrete backends, which implement \<^verbatim>\<open>recv_packet\<close>,
  \<^verbatim>\<open>send_packet\<close> and \<^verbatim>\<open>shutdown\<close>, are not among the sources; \<^verbatim>\<open>common.py\<close> only declares
  these methods abstract. The specification gives a node the states Active, ShuttingDown
  and Shutdown. \<^verbatim>\<open>shutdown()\<close> drives a node through them and releases the backend's
  resources. \<^verbatim>\<open>receive_packet\<close> waits for a packet and fails with \<^verbatim>\<open>NoPacketsAvailable\<close>
  (\<^verbatim>\<open>NoPackets\<close>) when the timeout elapses, and \<^verbatim>\<open>send_packet\<close> fails with
  \<^verbatim>\<open>UnknownDeviceError\<close> (\<^verbatim>\<open>SwitchyException\<close>) for an interface that is not registered; both
  fail with \<^verbatim>\<open>DeviceShutdown\<close> (\<^verbatim>\<open>Shutdown\<close>) once the node is being or has been shut down.
  The wait of \<^verbatim>\<open>receive_packet\<close> is represented by its outcome: the packet that arrived
  with the device it arrived on, or nothing when the timeout elapsed.
\<close>

datatype lifecycle = St_Active | St_ShuttingDown | St_Shutdown

type_synonym packet = "8 word list"

record backend = LLNetBase +
  state :: lifecycle
  resources_held :: bool
  sent :: "(string \<times> packet) list"

definition receive_packet :: "backend \<Rightarrow> (string \<times> packet) option \<Rightarrow> error + string \<times> packet" where
  "receive_packet b arrival =
     (if state b \<noteq> St_Active then Inl Shutdown
      else (case arrival of None \<Rightarrow> Inl NoPackets | Some p \<Rightarrow> Inr p))"

definition send_packet :: "store \<Rightarrow> backend \<Rightarrow> string \<Rightarrow> packet \<Rightarrow> error + backend" where
  "send_packet s b dev pkt =
     (if state b \<noteq> St_Active then Inl Shutdown
      else if \<not> dict_contains (dicts s (devinfo b)) dev then
        raise_SwitchyException (py_format ''No device named {}'' [dev])
      else Inr (b\<lparr>sent := sent b @ [(dev, pkt)]\<rparr>))"

definition begin_shutdown :: "backend \<Rightarrow> backend" where
  "begin_shutdown b = (if state b = St_Active then b\<lparr>state := St_ShuttingDown\<rparr> else b)"

definition finish_shutdown :: "backend \<Rightarrow> backend" where
  "finish_shutdown b =
     (if state b = St_ShuttingDown then b\<lparr>state := St_Shutdown, resources_held := False\<rparr>
      else b)"

definition shutdown :: "backend \<Rightarrow> backend" where
  "shutdown b = finish_shutdown (begin_shutdown b)"

text \<open>The calls a client can make on a node, and the node after a call (unchanged when
  the call raises) or after a sequence of calls.\<close>

datatype call =
    Call_receive "(string \<times> packet) option"
  | Call_send string packet
  | Call_shutdown
  | Call_set_callback "ref option"

fun after_call :: "store \<Rightarrow> backend \<Rightarrow> call \<Rightarrow> backend" where
  "after_call s b (Call_receive arrival) = b"
| "after_call s b (Call_send dev pkt) =
     (case send_packet s b dev pkt of Inl e \<Rightarrow> b | Inr b' \<Rightarrow> b')"
| "after_call s b Call_shutdown = shutdown b"
| "after_call s b (Call_set_callback cb) = b\<lparr>devupdown_callback := cb\<rparr>"

definition after_calls :: "store \<Rightarrow> backend \<Rightarrow> call list \<Rightarrow> backend" where
  "after_calls s b cs = foldl (after_call s) b cs"

section \<open>The scenario of the specification\<close>

text \<open>
  Two interfaces, \<^verbatim>\<open>eth0\<close> (\<^verbatim>\<open>aa:aa:aa:aa:aa:aa\<close>, \<^verbatim>\<open>10.0.0.1/255.255.255.0\<close>) and \<^verbatim>\<open>eth1\<close>
  (\<^verbatim>\<open>bb:bb:bb:bb:bb:bb\<close>, \<^verbatim>\<open>10.0.0.2/255.255.255.0\<close>), are the objects 1 and 2; the registry
  of the node is the dictionary 0.
\<close>

definition eth0 :: Interface where
  "eth0 = \<lparr>name = VStr ''eth0'', ethaddr = VEth (MkEthAddr 0xAAAAAAAAAAAA),
           ipaddr = VIP (MkIPAddr 0x0A000001), netmask = VIP (MkIPAddr 0xFFFFFF00)\<rparr>"

definition eth1 :: Interface where
  "eth1 = \<lparr>name = VStr ''eth1'', ethaddr = VEth (MkEthAddr 0xBBBBBBBBBBBB),
           ipaddr = VIP (MkIPAddr 0x0A000002), netmask = VIP (MkIPAddr 0xFFFFFF00)\<rparr>"

definition scenario_store :: store where
  "scenario_store =
     \<lparr>ifaces = (\<lambda>r. if r = 1 then eth0 else eth1),
      dicts = (\<lambda>d. if d = 0 then [(''eth0'', 1), (''eth1'', 2)] else [])\<rparr>"

definition scenario_node :: LLNetBase where
  "scenario_node = \<lparr>devupdown_callback = None, devinfo = 0\<rparr>"

definition scenario_backend :: backend where
  "scenario_backend =
     \<lparr>devupdown_callback = None, devinfo = 0, state = St_Active, resources_held = True,
      sent = []\<rparr>"

text \<open>A node whose registry, the dictionary 1, is empty.\<close>

definition unconfigured_node :: LLNetBase where
  "unconfigured_node = \<lparr>devupdown_callback = None, devinfo = 1\<rparr>"

section \<open>Basic facts\<close>

lemma bind_result_simps [simp]:
  "bind_result (Inl e) f = Inl e"
  "bind_result (Inr x) f = f x"
  by (simp_all add: bind_result_def)

lemma dict_contains_setitem [simp]:
  "dict_contains (dict_setitem d k v) k' = (k' = k \<or> dict_contains d k')"
  by (auto simp: dict_contains_def dict_setitem_def dom_update)

lemma dict_getitem_setitem [simp]:
  "dict_getitem (dict_setitem d k v) k' = (if k' = k then Inr v else dict_getitem d k')"
  by (simp add: dict_getitem_def dict_setitem_def update_conv')

lemma py_format_no_device_named:
  "py_format ''No device named {}'' [n] = Inr (''No device named '' @ n)"
  by simp

lemma ipaddr_loop_find:
  "ipaddr_loop s items a =
     map_option snd (find (\<lambda>p. ipaddr (ifaces s (snd p)) = VIP a) items)"
  by (induction items) (auto simp: py_eq_def)

lemma macaddr_loop_find:
  "macaddr_loop s items a =
     map_option snd (find (\<lambda>p. ethaddr (ifaces s (snd p)) = VEth a) items)"
  by (induction items) (auto simp: py_eq_def)

lemma ipaddr_loop_first:
  "k < length items \<Longrightarrow> ipaddr (ifaces s (snd (items ! k))) = VIP a \<Longrightarrow>
   \<forall>j<k. ipaddr (ifaces s (snd (items ! j))) \<noteq> VIP a \<Longrightarrow>
   ipaddr_loop s items a = Some (snd (items ! k))"
proof (induction items arbitrary: k)
  case Nil
  then show ?case by simp
next
  case (Cons p items)
  obtain devname iface where p: "p = (devname, iface)" by (cases p)
  show ?case
  proof (cases k)
    case 0
    with Cons.prems p show ?thesis by (simp add: py_eq_def)
  next
    case (Suc k')
    from Cons.prems(3) Suc have head: "ipaddr (ifaces s iface) \<noteq> VIP a"
      using p by (metis nth_Cons_0 snd_conv zero_less_Suc)
    have rest: "\<forall>j<k'. ipaddr (ifaces s (snd (items ! j))) \<noteq> VIP a"
    proof (intro allI impI)
      fix j assume "j < k'"
      then have "Suc j < k" using Suc by simp
      with Cons.prems(3) have "ipaddr (ifaces s (snd ((p # items) ! Suc j))) \<noteq> VIP a"
        by blast
      then show "ipaddr (ifaces s (snd (items ! j))) \<noteq> VIP a" by simp
    qed
    from Cons.prems(1,2) Suc have "k' < length items"
      and "ipaddr (ifaces s (snd (items ! k'))) = VIP a" by simp_all
    from Cons.IH [OF this rest] head p Suc show ?thesis by (simp add: py_eq_def)
  qed
qed

lemma ipaddr_loop_none:
  "\<forall>p\<in>set items. ipaddr (ifaces s (snd p)) \<noteq> VIP a \<Longrightarrow> ipaddr_loop s items a = None"
  unfolding ipaddr_loop_find by (auto simp: find_None_iff)

lemma macaddr_loop_first:
  "k < length items \<Longrightarrow> ethaddr (ifaces s (snd (items ! k))) = VEth a \<Longrightarrow>
   \<forall>j<k. ethaddr (ifaces s (snd (items ! j))) \<noteq> VEth a \<Longrightarrow>
   macaddr_loop s items a = Some (snd (items ! k))"
proof (induction items arbitrary: k)
  case Nil
  then show ?case by simp
next
  case (Cons p items)
  obtain devname iface where p: "p = (devname, iface)" by (cases p)
  show ?case
  proof (cases k)
    case 0
    with Cons.prems p show ?thesis by (simp add: py_eq_def)
  next
    case (Suc k')
    from Cons.prems(3) Suc have head: "ethaddr (ifaces s iface) \<noteq> VEth a"
      using p by (metis nth_Cons_0 snd_conv zero_less_Suc)
    have rest: "\<forall>j<k'. ethaddr (ifaces s (snd (items ! j))) \<noteq> VEth a"
    proof (intro allI impI)
      fix j assume "j < k'"
      then have "Suc j < k" using Suc by simp
      with Cons.prems(3) have "ethaddr (ifaces s (snd ((p # items) ! Suc j))) \<noteq> VEth a"
        by blast
      then show "ethaddr (ifaces s (snd (items ! j))) \<noteq> VEth a" by simp
    qed
    from Cons.prems(1,2) Suc have "k' < length items"
      and "ethaddr (ifaces s (snd (items ! k'))) = VEth a" by simp_all
    from Cons.IH [OF this rest] head p Suc show ?thesis by (simp add: py_eq_def)
  qed
qed

lemma macaddr_loop_none:
  "\<forall>p\<in>set items. ethaddr (ifaces s (snd p)) \<noteq> VEth a \<Longrightarrow> macaddr_loop s items a = None"
  unfolding macaddr_loop_find by (auto simp: find_None_iff)

lemma py_format_no_ip:
  "py_format ''No device has IP address {}'' [m] = Inr (''No device has IP address '' @ m)"
  by simp

lemma py_format_no_mac:
  "py_format ''No device has MAC address {}'' [m] = Inr (''No device has MAC address '' @ m)"
  by simp



lemma to_octets_4:
  "to_octets 4 n =
     [n div 256 div 256 div 256 mod 256, n div 256 div 256 mod 256, n div 256 mod 256, n mod 256]"
proof -
  have four: "(4::nat) = Suc (Suc (Suc (Suc 0)))" by simp
  show ?thesis unfolding four by simp
qed

lemma to_octets_6:
  "to_octets 6 n =
     [n div 256 div 256 div 256 div 256 div 256 mod 256,
      n div 256 div 256 div 256 div 256 mod 256,
      n div 256 div 256 div 256 mod 256, n div 256 div 256 mod 256, n div 256 mod 256,
      n mod 256]"
proof -
  have six: "(6::nat) = Suc (Suc (Suc (Suc (Suc (Suc 0)))))" by simp
  show ?thesis unfolding six by simp
qed

lemma parse_ip_examples:
  "parse_ip ''10.0.0.300'' = None"
  "parse_ip ''10.0.0.1'' = Some (MkIPAddr 0x0A000001)"
  "parse_ip ''10.0.0.2'' = Some (MkIPAddr 0x0A000002)"
  "parse_ip ''10.0.0.9'' = Some (MkIPAddr 0x0A000009)"
  by (simp_all add: parse_ip_def parse_octet_def digit_value_def from_octets_def)

lemma parse_mac_examples:
  "parse_mac ''AA:AA'' = None"
  "parse_mac ''AA:AA:AA:AA:AA:AA'' = Some (MkEthAddr 0xAAAAAAAAAAAA)"
  "parse_mac ''cc:cc:cc:cc:cc:cc'' = Some (MkEthAddr 0xCCCCCCCCCCCC)"
  by (simp_all add: parse_mac_def hex_value_def from_octets_def)

lemma IPAddr_str_examples:
  "IPAddr_str (MkIPAddr 0x0A000001) = ''10.0.0.1''"
  "IPAddr_str (MkIPAddr 0x0A000009) = ''10.0.0.9''"
  by (simp_all add: IPAddr_str_def to_octets_4 show_nat.simps digit_char_def)

lemma EthAddr_str_examples:
  "EthAddr_str (MkEthAddr 0xBBBBBBBBBBBB) = ''bb:bb:bb:bb:bb:bb''"
  "EthAddr_str (MkEthAddr 0xCCCCCCCCCCCC) = ''cc:cc:cc:cc:cc:cc''"
  by (simp_all add: EthAddr_str_def to_octets_6 show_hex2_def hex_char_def)

lemma by_ipaddr_constructor_fails:
  "IPAddr_init x = Inl e \<Longrightarrow> interface_by_ipaddr s self x = Inl e"
  by (simp add: interface_by_ipaddr_def)

lemma by_ipaddr_first:
  "IPAddr_init x = Inr a \<Longrightarrow> k < length (dicts s (devinfo self)) \<Longrightarrow>
   ipaddr (ifaces s (snd (dicts s (devinfo self) ! k))) = VIP a \<Longrightarrow>
   \<forall>j<k. ipaddr (ifaces s (snd (dicts s (devinfo self) ! j))) \<noteq> VIP a \<Longrightarrow>
   interface_by_ipaddr s self x = Inr (snd (dicts s (devinfo self) ! k))"
  using ipaddr_loop_first [of k "dicts s (devinfo self)" s a]
  by (simp add: interface_by_ipaddr_def dict_items_def del: py_format.simps)

lemma by_ipaddr_none:
  "IPAddr_init x = Inr a \<Longrightarrow>
   \<forall>p\<in>set (dicts s (devinfo self)). ipaddr (ifaces s (snd p)) \<noteq> VIP a \<Longrightarrow>
   interface_by_ipaddr s self x =
     Inl (SwitchyException (''No device has IP address '' @ IPAddr_str a))"
  using ipaddr_loop_none [of "dicts s (devinfo self)" s a]
  by (simp add: interface_by_ipaddr_def dict_items_def raise_SwitchyException_def
      py_format_no_ip del: py_format.simps)

lemma by_macaddr_constructor_fails:
  "EthAddr_init x = Inl e \<Longrightarrow> interface_by_macaddr s self x = Inl e"
  by (simp add: interface_by_macaddr_def)

lemma by_macaddr_first:
  "EthAddr_init x = Inr a \<Longrightarrow> k < length (dicts s (devinfo self)) \<Longrightarrow>
   ethaddr (ifaces s (snd (dicts s (devinfo self) ! k))) = VEth a \<Longrightarrow>
   \<forall>j<k. ethaddr (ifaces s (snd (dicts s (devinfo self) ! j))) \<noteq> VEth a \<Longrightarrow>
   interface_by_macaddr s self x = Inr (snd (dicts s (devinfo self) ! k))"
  using macaddr_loop_first [of k "dicts s (devinfo self)" s a]
  by (simp add: interface_by_macaddr_def dict_items_def del: py_format.simps)

lemma by_macaddr_none:
  "EthAddr_init x = Inr a \<Longrightarrow>
   \<forall>p\<in>set (dicts s (devinfo self)). ethaddr (ifaces s (snd p)) \<noteq> VEth a \<Longrightarrow>
   interface_by_macaddr s self x =
     Inl (SwitchyException (''No device has MAC address '' @ EthAddr_str a))"
  using macaddr_loop_none [of "dicts s (devinfo self)" s a]
  by (simp add: interface_by_macaddr_def dict_items_def raise_SwitchyException_def
      py_format_no_mac del: py_format.simps)

section \<open>Lookup by name\<close>

text \<open>
  C5. \<^verbatim>\<open>interface_by_name\<close> is a left inverse of registration: once an \<^verbatim>\<open>Interface\<close> object
  has been registered under the name \<open>n\<close>, \<^verbatim>\<open>interface_by_name(n)\<close> returns the reference of
  that very object, and for a name \<open>m\<close> that is not a key of the registry
  \<^verbatim>\<open>interface_by_name(m)\<close> raises \<^verbatim>\<open>SwitchyException\<close>, the exception of this module for an
  unknown device.
\<close>

theorem interface_by_name_left_inverse:
  "interface_by_name (register s self n iface) self n = Inr iface \<and>
   (\<not> dict_contains (dicts s (devinfo self)) m \<longrightarrow>
      interface_by_name s self m = Inl (SwitchyException (''No device named '' @ m)))"
  by (simp add: interface_by_name_def register_def raise_SwitchyException_def
      py_format_no_device_named del: py_format.simps)

theorem interface_by_name_left_inverse_witness:
  "interface_by_name (register scenario_store scenario_node ''eth2'' 3) scenario_node ''eth2''
     = Inr 3 \<and>
   \<not> dict_contains (dicts scenario_store (devinfo scenario_node)) ''ghost'' \<and>
   interface_by_name scenario_store scenario_node ''ghost''
     = Inl (SwitchyException ''No device named ghost'')"
  using interface_by_name_left_inverse
    [of scenario_store scenario_node "''eth2''" 3 "''ghost''"]
  by (simp add: scenario_store_def scenario_node_def dict_contains_def)

section \<open>The aliases\<close>

text \<open>
  C9. The port-named operations are exact aliases of the interface-named ones: in every
  store, for every node and every argument, \<^verbatim>\<open>ports()\<close> returns what \<^verbatim>\<open>interfaces()\<close> returns,
  and \<^verbatim>\<open>port_by_name\<close>, \<^verbatim>\<open>port_by_ipaddr\<close> and \<^verbatim>\<open>port_by_macaddr\<close> return the same reference or
  raise the same exception as \<^verbatim>\<open>interface_by_name\<close>, \<^verbatim>\<open>interface_by_ipaddr\<close> and
  \<^verbatim>\<open>interface_by_macaddr\<close>.
\<close>

theorem port_aliases:
  "ports s self = interfaces s self \<and>
   port_by_name s self n = interface_by_name s self n \<and>
   port_by_ipaddr s self x = interface_by_ipaddr s self x \<and>
   port_by_macaddr s self x = interface_by_macaddr s self x"
  by (simp add: ports_def port_by_name_def port_by_ipaddr_def port_by_macaddr_def)

section \<open>The address fields of an Interface\<close>

text \<open>
  C1. The three address setters follow the same four-way rule. A value that is already
  of the field's type (\<^verbatim>\<open>EthAddr\<close> for \<^verbatim>\<open>ethaddr\<close>, \<^verbatim>\<open>IPAddr\<close> for \<^verbatim>\<open>ipaddr\<close> and \<^verbatim>\<open>netmask\<close>) is
  stored unchanged. A string is parsed by the constructor of that type: the parsed address
  is stored, and a string that is not a valid address of that type raises
  \<^verbatim>\<open>AddressFormatError\<close>. \<^verbatim>\<open>None\<close> stores the default \<^verbatim>\<open>00:00:00:00:00:00\<close>, \<^verbatim>\<open>0.0.0.0\<close> or
  \<^verbatim>\<open>255.255.255.255\<close> (as the string the source writes). Any other value (a number, an
  address of the other type) is stored as it is, without an error.
\<close>

theorem address_setter_rule:
  "ethaddr_setter self (VEth m) = Inr (self\<lparr>ethaddr := VEth m\<rparr>) \<and>
   ethaddr_setter self (VStr t) =
     (case parse_mac t of
        None \<Rightarrow> Inl AddressFormatError
      | Some a \<Rightarrow> Inr (self\<lparr>ethaddr := VEth a\<rparr>)) \<and>
   ethaddr_setter self VNone = Inr (self\<lparr>ethaddr := VStr ''00:00:00:00:00:00''\<rparr>) \<and>
   ethaddr_setter self (VInt i) = Inr (self\<lparr>ethaddr := VInt i\<rparr>) \<and>
   ethaddr_setter self (VIP q) = Inr (self\<lparr>ethaddr := VIP q\<rparr>) \<and>
   ipaddr_setter self (VIP q) = Inr (self\<lparr>ipaddr := VIP q\<rparr>) \<and>
   ipaddr_setter self (VStr t) =
     (case parse_ip t of
        None \<Rightarrow> Inl AddressFormatError
      | Some a \<Rightarrow> Inr (self\<lparr>ipaddr := VIP a\<rparr>)) \<and>
   ipaddr_setter self VNone = Inr (self\<lparr>ipaddr := VStr ''0.0.0.0''\<rparr>) \<and>
   ipaddr_setter self (VInt i) = Inr (self\<lparr>ipaddr := VInt i\<rparr>) \<and>
   ipaddr_setter self (VEth m) = Inr (self\<lparr>ipaddr := VEth m\<rparr>) \<and>
   netmask_setter self (VIP q) = Inr (self\<lparr>netmask := VIP q\<rparr>) \<and>
   netmask_setter self (VStr t) =
     (case parse_ip t of
        None \<Rightarrow> Inl AddressFormatError
      | Some a \<Rightarrow> Inr (self\<lparr>netmask := VIP a\<rparr>)) \<and>
   netmask_setter self VNone = Inr (self\<lparr>netmask := VStr ''255.255.255.255''\<rparr>) \<and>
   netmask_setter self (VInt i) = Inr (self\<lparr>netmask := VInt i\<rparr>) \<and>
   netmask_setter self (VEth m) = Inr (self\<lparr>netmask := VEth m\<rparr>)"
  by (simp split: option.split)

text \<open>
  C2. An \<^verbatim>\<open>Interface\<close> constructed with \<^verbatim>\<open>ethaddr=None\<close> has an \<^verbatim>\<open>ethaddr\<close> whose string form
  is \<^verbatim>\<open>00:00:00:00:00:00\<close>; constructed with \<^verbatim>\<open>ipaddr=None\<close> it has an \<^verbatim>\<open>ipaddr\<close> whose string
  form is \<^verbatim>\<open>0.0.0.0\<close>; constructed with \<^verbatim>\<open>netmask=None\<close> it has a \<^verbatim>\<open>netmask\<close> whose string form
  is \<^verbatim>\<open>255.255.255.255\<close>.
\<close>

theorem Interface_init_defaults:
  "(Interface_init nm VNone ip nmask = Inr i1 \<longrightarrow>
      py_str (ethaddr i1) = ''00:00:00:00:00:00'') \<and>
   (Interface_init nm eth VNone nmask = Inr i2 \<longrightarrow> py_str (ipaddr i2) = ''0.0.0.0'') \<and>
   (Interface_init nm eth ip VNone = Inr i3 \<longrightarrow> py_str (netmask i3) = ''255.255.255.255'')"
proof (intro conjI impI)
  assume "Interface_init nm VNone ip nmask = Inr i1"
  then show "py_str (ethaddr i1) = ''00:00:00:00:00:00''"
    by (cases ip; cases nmask)
       (auto simp: Interface_init_def bind_result_def split: sum.splits option.splits)
next
  assume "Interface_init nm eth VNone nmask = Inr i2"
  then show "py_str (ipaddr i2) = ''0.0.0.0''"
    by (cases eth; cases nmask)
       (auto simp: Interface_init_def bind_result_def split: sum.splits option.splits)
next
  assume "Interface_init nm eth ip VNone = Inr i3"
  then show "py_str (netmask i3) = ''255.255.255.255''"
    by (cases eth; cases ip)
       (auto simp: Interface_init_def bind_result_def split: sum.splits option.splits)
qed

theorem Interface_init_defaults_witness:
  "Interface_init (VStr ''eth0'') VNone VNone VNone
     = Inr \<lparr>name = VStr ''eth0'', ethaddr = VStr ''00:00:00:00:00:00'',
            ipaddr = VStr ''0.0.0.0'', netmask = VStr ''255.255.255.255''\<rparr> \<and>
   py_str (VStr ''00:00:00:00:00:00'') = ''00:00:00:00:00:00'' \<and>
   py_str (VStr ''0.0.0.0'') = ''0.0.0.0'' \<and>
   py_str (VStr ''255.255.255.255'') = ''255.255.255.255''"
  using Interface_init_defaults
    [of "VStr ''eth0''" VNone VNone
        "\<lparr>name = VStr ''eth0'', ethaddr = VStr ''00:00:00:00:00:00'',
          ipaddr = VStr ''0.0.0.0'', netmask = VStr ''255.255.255.255''\<rparr>"
        VNone
        "\<lparr>name = VStr ''eth0'', ethaddr = VStr ''00:00:00:00:00:00'',
          ipaddr = VStr ''0.0.0.0'', netmask = VStr ''255.255.255.255''\<rparr>"
        "\<lparr>name = VStr ''eth0'', ethaddr = VStr ''00:00:00:00:00:00'',
          ipaddr = VStr ''0.0.0.0'', netmask = VStr ''255.255.255.255''\<rparr>"]
  by (simp add: Interface_init_def)

section \<open>The name of an Interface\<close>

text \<open>
  C6. The name of an \<^verbatim>\<open>Interface\<close> is stored verbatim by the constructor and is read-only
  afterwards: an attribute assignment that succeeds (it runs one of the three address
  setters) leaves the name as it was, and assigning the attribute \<^verbatim>\<open>name\<close> itself raises
  \<^verbatim>\<open>AttributeError\<close>, whatever the value.
\<close>

theorem name_read_only:
  "(Interface_init nm eth ip nmask = Inr self \<longrightarrow> name self = nm) \<and>
   (Interface_setattr self0 a v = Inr self1 \<longrightarrow> name self1 = name self0) \<and>
   Interface_setattr self0 A_name w = Inl AttributeError"
proof (intro conjI impI)
  assume "Interface_init nm eth ip nmask = Inr self"
  then show "name self = nm"
    by (cases eth; cases ip; cases nmask)
       (auto simp: Interface_init_def bind_result_def split: sum.splits option.splits)
next
  assume "Interface_setattr self0 a v = Inr self1"
  then show "name self1 = name self0"
    by (cases a; cases v) (auto simp: bind_result_def split: sum.splits option.splits)
next
  show "Interface_setattr self0 A_name w = Inl AttributeError"
    by simp
qed

theorem name_read_only_witness:
  "Interface_init (VStr ''eth0'') VNone (VInt 5) VNone
     = Inr \<lparr>name = VStr ''eth0'', ethaddr = VStr ''00:00:00:00:00:00'',
            ipaddr = VInt 5, netmask = VStr ''255.255.255.255''\<rparr> \<and>
   Interface_setattr eth0 A_ipaddr VNone = Inr (eth0\<lparr>ipaddr := VStr ''0.0.0.0''\<rparr>) \<and>
   name (eth0\<lparr>ipaddr := VStr ''0.0.0.0''\<rparr>) = name eth0 \<and>
   Interface_setattr eth0 A_name (VStr ''lo'') = Inl AttributeError"
  using name_read_only
    [where nm = "VStr ''eth0''" and eth = VNone and ip = "VInt 5" and nmask = VNone
       and self = "\<lparr>name = VStr ''eth0'', ethaddr = VStr ''00:00:00:00:00:00'',
                    ipaddr = VInt 5, netmask = VStr ''255.255.255.255''\<rparr>"
       and ?self0.0 = eth0 and a = A_ipaddr and v = VNone
       and ?self1.0 = "eth0\<lparr>ipaddr := VStr ''0.0.0.0''\<rparr>" and w = "VStr ''lo''"]
  by (simp add: Interface_init_def)

section \<open>The string form of an Interface\<close>

text \<open>
  C7. The string form of an \<^verbatim>\<open>Interface\<close> is \<^verbatim>\<open><name> mac:<ethaddr> ip:<ipaddr>/<netmask>\<close>,
  each placeholder standing for the string form of that field.
\<close>

theorem Interface_str_canonical:
  "Interface_str self =
     Inr (py_str (name self) @ '' mac:'' @ py_str (ethaddr self) @ '' ip:'' @
          py_str (ipaddr self) @ ''/'' @ py_str (netmask self))"
  by (simp add: Interface_str_def)

section \<open>Lookup by address\<close>

text \<open>
  C3. \<^verbatim>\<open>interface_by_ipaddr\<close> (and in the same way \<^verbatim>\<open>interface_by_macaddr\<close>) first passes
  its argument to the constructor of the address type: when the constructor raises, the
  lookup raises the same exception whatever the registry holds, and so a string that is
  not a valid address raises \<^verbatim>\<open>AddressFormatError\<close>. Otherwise it returns the first
  \<^verbatim>\<open>Interface\<close> in the enumeration order of the registry whose \<^verbatim>\<open>ipaddr\<close> (\<^verbatim>\<open>ethaddr\<close>) equals
  the constructed address, and raises \<^verbatim>\<open>SwitchyException\<close>, the exception of this module
  for an unknown device, when no registered \<^verbatim>\<open>Interface\<close> matches, in particular when the
  registry is empty.
\<close>

theorem lookup_by_address:
  "(IPAddr_init x = Inl e \<longrightarrow> interface_by_ipaddr s self x = Inl e) \<and>
   (parse_ip t = None \<longrightarrow> interface_by_ipaddr s self (VStr t) = Inl AddressFormatError) \<and>
   (IPAddr_init x1 = Inr a \<and> k < length (dicts s (devinfo self)) \<and>
    ipaddr (ifaces s (snd (dicts s (devinfo self) ! k))) = VIP a \<and>
    (\<forall>j<k. ipaddr (ifaces s (snd (dicts s (devinfo self) ! j))) \<noteq> VIP a) \<longrightarrow>
      interface_by_ipaddr s self x1 = Inr (snd (dicts s (devinfo self) ! k))) \<and>
   (IPAddr_init x2 = Inr a2 \<and>
    (\<forall>p\<in>set (dicts s (devinfo self)). ipaddr (ifaces s (snd p)) \<noteq> VIP a2) \<longrightarrow>
      interface_by_ipaddr s self x2 =
        Inl (SwitchyException (''No device has IP address '' @ IPAddr_str a2))) \<and>
   (IPAddr_init x3 = Inr a3 \<and> dicts s0 (devinfo self0) = [] \<longrightarrow>
      interface_by_ipaddr s0 self0 x3 =
        Inl (SwitchyException (''No device has IP address '' @ IPAddr_str a3))) \<and>
   (EthAddr_init y = Inl e' \<longrightarrow> interface_by_macaddr s self y = Inl e') \<and>
   (parse_mac u = None \<longrightarrow> interface_by_macaddr s self (VStr u) = Inl AddressFormatError) \<and>
   (EthAddr_init y1 = Inr b \<and> l < length (dicts s (devinfo self)) \<and>
    ethaddr (ifaces s (snd (dicts s (devinfo self) ! l))) = VEth b \<and>
    (\<forall>j<l. ethaddr (ifaces s (snd (dicts s (devinfo self) ! j))) \<noteq> VEth b) \<longrightarrow>
      interface_by_macaddr s self y1 = Inr (snd (dicts s (devinfo self) ! l))) \<and>
   (EthAddr_init y2 = Inr b2 \<and>
    (\<forall>p\<in>set (dicts s (devinfo self)). ethaddr (ifaces s (snd p)) \<noteq> VEth b2) \<longrightarrow>
      interface_by_macaddr s self y2 =
        Inl (SwitchyException (''No device has MAC address '' @ EthAddr_str b2))) \<and>
   (EthAddr_init y3 = Inr b3 \<and> dicts s0 (devinfo self0) = [] \<longrightarrow>
      interface_by_macaddr s0 self0 y3 =
        Inl (SwitchyException (''No device has MAC address '' @ EthAddr_str b3)))"
proof (intro conjI impI; (elim conjE)?)
  show "interface_by_ipaddr s self x = Inl e" if "IPAddr_init x = Inl e"
    using that by (rule by_ipaddr_constructor_fails)
  show "interface_by_ipaddr s self (VStr t) = Inl AddressFormatError" if "parse_ip t = None"
    using that by (intro by_ipaddr_constructor_fails) simp
  show "interface_by_ipaddr s self x1 = Inr (snd (dicts s (devinfo self) ! k))"
    if "IPAddr_init x1 = Inr a" "k < length (dicts s (devinfo self))"
      "ipaddr (ifaces s (snd (dicts s (devinfo self) ! k))) = VIP a"
      "\<forall>j<k. ipaddr (ifaces s (snd (dicts s (devinfo self) ! j))) \<noteq> VIP a"
    using that by (rule by_ipaddr_first)
  show "interface_by_ipaddr s self x2 =
        Inl (SwitchyException (''No device has IP address '' @ IPAddr_str a2))"
    if "IPAddr_init x2 = Inr a2"
      "\<forall>p\<in>set (dicts s (devinfo self)). ipaddr (ifaces s (snd p)) \<noteq> VIP a2"
    using that by (rule by_ipaddr_none)
  show "interface_by_ipaddr s0 self0 x3 =
        Inl (SwitchyException (''No device has IP address '' @ IPAddr_str a3))"
    if "IPAddr_init x3 = Inr a3" "dicts s0 (devinfo self0) = []"
    using that by (intro by_ipaddr_none) simp_all
  show "interface_by_macaddr s self y = Inl e'" if "EthAddr_init y = Inl e'"
    using that by (rule by_macaddr_constructor_fails)
  show "interface_by_macaddr s self (VStr u) = Inl AddressFormatError" if "parse_mac u = None"
    using that by (intro by_macaddr_constructor_fails) simp
  show "interface_by_macaddr s self y1 = Inr (snd (dicts s (devinfo self) ! l))"
    if "EthAddr_init y1 = Inr b" "l < length (dicts s (devinfo self))"
      "ethaddr (ifaces s (snd (dicts s (devinfo self) ! l))) = VEth b"
      "\<forall>j<l. ethaddr (ifaces s (snd (dicts s (devinfo self) ! j))) \<noteq> VEth b"
    using that by (rule by_macaddr_first)
  show "interface_by_macaddr s self y2 =
        Inl (SwitchyException (''No device has MAC address '' @ EthAddr_str b2))"
    if "EthAddr_init y2 = Inr b2"
      "\<forall>p\<in>set (dicts s (devinfo self)). ethaddr (ifaces s (snd p)) \<noteq> VEth b2"
    using that by (rule by_macaddr_none)
  show "interface_by_macaddr s0 self0 y3 =
        Inl (SwitchyException (''No device has MAC address '' @ EthAddr_str b3))"
    if "EthAddr_init y3 = Inr b3" "dicts s0 (devinfo self0) = []"
    using that by (intro by_macaddr_none) simp_all
qed

theorem lookup_by_address_witness:
  "IPAddr_init (VStr ''10.0.0.300'') = Inl AddressFormatError \<and>
   parse_ip ''10.0.0.300'' = None \<and>
   interface_by_ipaddr scenario_store scenario_node (VStr ''10.0.0.300'')
     = Inl AddressFormatError \<and>
   IPAddr_init (VStr ''10.0.0.2'') = Inr (MkIPAddr 0x0A000002) \<and>
   interface_by_ipaddr scenario_store scenario_node (VStr ''10.0.0.2'') = Inr 2 \<and>
   IPAddr_init (VStr ''10.0.0.9'') = Inr (MkIPAddr 0x0A000009) \<and>
   interface_by_ipaddr scenario_store scenario_node (VStr ''10.0.0.9'')
     = Inl (SwitchyException ''No device has IP address 10.0.0.9'') \<and>
   dicts scenario_store (devinfo unconfigured_node) = [] \<and>
   interface_by_ipaddr scenario_store unconfigured_node (VStr ''10.0.0.1'')
     = Inl (SwitchyException ''No device has IP address 10.0.0.1'') \<and>
   EthAddr_init (VInt 5) = Inl AddressFormatError \<and>
   parse_mac ''AA:AA'' = None \<and>
   interface_by_macaddr scenario_store scenario_node (VStr ''AA:AA'')
     = Inl AddressFormatError \<and>
   interface_by_macaddr scenario_store scenario_node (VStr ''AA:AA:AA:AA:AA:AA'') = Inr 1 \<and>
   interface_by_macaddr scenario_store scenario_node (VStr ''cc:cc:cc:cc:cc:cc'')
     = Inl (SwitchyException ''No device has MAC address cc:cc:cc:cc:cc:cc'') \<and>
   interface_by_macaddr scenario_store unconfigured_node (VEth (MkEthAddr 0xBBBBBBBBBBBB))
     = Inl (SwitchyException ''No device has MAC address bb:bb:bb:bb:bb:bb'')"
  using lookup_by_address
    [where s = scenario_store and self = scenario_node
       and x = "VStr ''10.0.0.300''" and e = AddressFormatError and t = "''10.0.0.300''"
       and ?x1.0 = "VStr ''10.0.0.2''" and a = "MkIPAddr 0x0A000002" and k = 1
       and ?x2.0 = "VStr ''10.0.0.9''" and ?a2.0 = "MkIPAddr 0x0A000009"
       and ?x3.0 = "VStr ''10.0.0.1''" and ?a3.0 = "MkIPAddr 0x0A000001"
       and ?s0.0 = scenario_store and ?self0.0 = unconfigured_node
       and y = "VStr ''AA:AA''" and e' = AddressFormatError and u = "''AA:AA''"
       and ?y1.0 = "VStr ''AA:AA:AA:AA:AA:AA''" and b = "MkEthAddr 0xAAAAAAAAAAAA" and l = 0
       and ?y2.0 = "VStr ''cc:cc:cc:cc:cc:cc''" and ?b2.0 = "MkEthAddr 0xCCCCCCCCCCCC"
       and ?y3.0 = "VEth (MkEthAddr 0xBBBBBBBBBBBB)" and ?b3.0 = "MkEthAddr 0xBBBBBBBBBBBB"]
  by (simp add: parse_ip_examples parse_mac_examples IPAddr_str_examples EthAddr_str_examples
      scenario_store_def scenario_node_def unconfigured_node_def eth0_def eth1_def)

section \<open>The live view of the registry\<close>

lemma delete_filter: "AList.delete k d = filter (\<lambda>p. fst p \<noteq> k) d"
  by (induction d) auto

lemma list_of_view_interfaces:
  "list_of_view s' (fst (interfaces s self)) = map snd (dicts s' (devinfo self))"
  by (simp add: interfaces_def list_of_view_def)

text \<open>
  C10. \<^verbatim>\<open>interfaces()\<close> returns a live view of the registry, not a snapshot. In whatever
  store the returned view is enumerated, it lists the values that the registry of the node
  holds in that store, in order; so an \<^verbatim>\<open>Interface\<close> registered after the call is
  enumerated, and after a removal the view lists the values of the remaining entries.
  The call itself leaves the store, and with it the registry, as it was.
\<close>

theorem interfaces_live_view:
  "list_of_view s' (fst (interfaces s self)) = map snd (dicts s' (devinfo self)) \<and>
   snd (interfaces s self) = s \<and>
   list_of_view (register s self n iface) (fst (interfaces s self)) =
     map snd (dict_setitem (dicts s (devinfo self)) n iface) \<and>
   iface \<in> set (list_of_view (register s self n iface) (fst (interfaces s self))) \<and>
   (unregister s self m = Inr s2 \<longrightarrow>
      list_of_view s2 (fst (interfaces s self)) =
        map snd (filter (\<lambda>p. fst p \<noteq> m) (dicts s (devinfo self))))"
proof (intro conjI impI)
  show "list_of_view s' (fst (interfaces s self)) = map snd (dicts s' (devinfo self))"
    by (rule list_of_view_interfaces)
  show "snd (interfaces s self) = s"
    by (simp add: interfaces_def)
  show reg: "list_of_view (register s self n iface) (fst (interfaces s self)) =
     map snd (dict_setitem (dicts s (devinfo self)) n iface)"
    by (simp add: list_of_view_interfaces register_def)
  have "(n, iface) \<in> set (AList.update n iface d)" for d :: "ref pydict"
    by (induction d) auto
  then have "iface \<in> set (map snd (dict_setitem (dicts s (devinfo self)) n iface))"
    unfolding dict_setitem_def by force
  with reg show "iface \<in> set (list_of_view (register s self n iface) (fst (interfaces s self)))"
    by simp
  show "list_of_view s2 (fst (interfaces s self)) =
        map snd (filter (\<lambda>p. fst p \<noteq> m) (dicts s (devinfo self)))"
    if "unregister s self m = Inr s2"
    using that
    by (auto simp: unregister_def dict_delitem_def list_of_view_interfaces delete_filter
        split: if_splits)
qed

theorem interfaces_live_view_witness:
  "unregister scenario_store scenario_node ''eth0''
     = Inr (scenario_store\<lparr>dicts := (dicts scenario_store)(0 := [(''eth1'', 2)])\<rparr>) \<and>
   list_of_view scenario_store (fst (interfaces scenario_store scenario_node)) = [1, 2] \<and>
   list_of_view (scenario_store\<lparr>dicts := (dicts scenario_store)(0 := [(''eth1'', 2)])\<rparr>)
     (fst (interfaces scenario_store scenario_node)) = [2] \<and>
   list_of_view (register scenario_store scenario_node ''eth2'' 3)
     (fst (interfaces scenario_store scenario_node)) = [1, 2, 3]"
  using interfaces_live_view
    [where s = scenario_store and self = scenario_node and s' = scenario_store
       and n = "''eth2''" and iface = 3 and m = "''eth0''"
       and ?s2.0 = "scenario_store\<lparr>dicts := (dicts scenario_store)(0 := [(''eth1'', 2)])\<rparr>"]
  by (simp add: scenario_store_def scenario_node_def unregister_def dict_delitem_def
      dict_contains_def dict_setitem_def delete_filter fun_upd_def)

section \<open>Shutdown\<close>

lemma shutdown_state: "state (shutdown b) = St_Shutdown"
  by (cases "state b") (simp_all add: shutdown_def begin_shutdown_def finish_shutdown_def)

lemma shutdown_idempotent: "shutdown (shutdown b) = shutdown b"
  by (cases "state b") (simp_all add: shutdown_def begin_shutdown_def finish_shutdown_def)

lemma after_call_stays_shutdown:
  "state b = St_Shutdown \<Longrightarrow> state (after_call s b c) = St_Shutdown"
  by (cases c) (simp_all add: send_packet_def shutdown_state)

lemma after_calls_stays_shutdown:
  "state b = St_Shutdown \<Longrightarrow> state (after_calls s b cs) = St_Shutdown"
  unfolding after_calls_def
  by (induction cs arbitrary: b) (simp_all add: after_call_stays_shutdown)

lemma after_call_stays_active:
  "state b = St_Active \<Longrightarrow> c \<noteq> Call_shutdown \<Longrightarrow> state (after_call s b c) = St_Active"
  by (cases c)
     (auto simp: send_packet_def raise_SwitchyException_def bind_result_def
           split: sum.splits simp del: py_format.simps)

lemma after_calls_stays_active:
  "state b = St_Active \<Longrightarrow> Call_shutdown \<notin> set cs \<Longrightarrow>
   state (after_calls s b cs) = St_Active"
  unfolding after_calls_def
  by (induction cs arbitrary: b) (auto simp: after_call_stays_active)

text \<open>
  C4. \<^verbatim>\<open>shutdown()\<close> is idempotent: a second call changes nothing, and no call can fail.
  After \<^verbatim>\<open>shutdown()\<close> the node is in the state Shutdown and stays there whatever calls
  follow, and every later \<^verbatim>\<open>receive_packet\<close> and \<^verbatim>\<open>send_packet\<close> fails with \<^verbatim>\<open>Shutdown\<close>. An
  active node stays active under every sequence of calls that does not contain
  \<^verbatim>\<open>shutdown()\<close>: only \<^verbatim>\<open>shutdown()\<close> drives the transition, and it is one-way.
\<close>

theorem shutdown_contract:
  "shutdown (shutdown b) = shutdown b \<and>
   state (shutdown b) = St_Shutdown \<and>
   state (after_calls s (shutdown b) cs) = St_Shutdown \<and>
   receive_packet (after_calls s (shutdown b) cs) arrival = Inl Shutdown \<and>
   send_packet s (after_calls s (shutdown b) cs) dev pkt = Inl Shutdown \<and>
   (state b0 = St_Active \<and> Call_shutdown \<notin> set cs0 \<longrightarrow>
      state (after_calls s b0 cs0) = St_Active)"
proof -
  have down: "state (after_calls s (shutdown b) cs) = St_Shutdown"
    by (rule after_calls_stays_shutdown) (rule shutdown_state)
  show ?thesis
    using down
    by (simp add: shutdown_idempotent shutdown_state receive_packet_def send_packet_def
        after_calls_stays_active)
qed

theorem shutdown_contract_witness:
  "state scenario_backend = St_Active \<and>
   Call_shutdown \<notin> set [Call_send ''eth0'' [1, 2], Call_receive None, Call_set_callback (Some 4)] \<and>
   state (after_calls scenario_store scenario_backend
            [Call_send ''eth0'' [1, 2], Call_receive None, Call_set_callback (Some 4)])
     = St_Active \<and>
   state (after_calls scenario_store (shutdown scenario_backend)
            [Call_send ''eth0'' [1, 2], Call_shutdown]) = St_Shutdown \<and>
   send_packet scenario_store (shutdown scenario_backend) ''eth0'' [1, 2] = Inl Shutdown"
  using shutdown_contract
    [where b = scenario_backend and s = scenario_store
       and cs = "[Call_send ''eth0'' [1, 2], Call_shutdown]"
       and ?b0.0 = scenario_backend
       and ?cs0.0 = "[Call_send ''eth0'' [1, 2], Call_receive None, Call_set_callback (Some 4)]"]
    shutdown_contract [where b = scenario_backend and s = scenario_store and cs = "[]"
       and dev = "''eth0''" and pkt = "[1, 2]"]
  by (simp add: scenario_backend_def after_calls_def)

end
